theory Spec2Isabelle
  imports Complex_Main
begin

section \<open>Python values, exceptions and the external library\<close>

text \<open>
  The adapter (\<^verbatim>\<open>pymt5adapter/core.py\<close>) forwards Python values to the MetaTrader5
  binding and hands its replies back. The values it can see are modelled by \<open>pyval\<close>:
  \<open>PNdarray\<close> is a numpy array (of records), \<open>PNamed\<close> a named tuple with its type
  name, \<open>PObj\<close> any other object (a datetime, say), which the adapter only passes on.
  Floats are carried as reals; NaN and the infinities are left out, no operation of the
  adapter computes with them.
\<close>

datatype pyval =
    PNone
  | PBool bool
  | PInt int
  | PFloat real
  | PStr string
  | PTuple "pyval list"
  | PList "pyval list"
  | PDict "(string \<times> pyval) list"
  | PNdarray "pyval list"
  | PNamed string "pyval list"
  | PObj string

text \<open>
  Exceptions are values. \<open>MT5Error\<close> is the class of line 15, raised with the two
  arguments of line 32; \<open>OtherError\<close> stands for any exception class that is neither
  one of the named ones nor derived from \<open>SystemError\<close>.
\<close>

datatype exn =
    SystemError
  | TypeError
  | ValueError
  | KeyError string
  | MT5Error int string
  | OtherError string

type_synonym outcome = "exn + pyval"

type_synonym kwargs = "(string \<times> pyval) list"

text \<open>
  One constructor for each function of the MetaTrader5 module that \<^verbatim>\<open>core.py\<close> calls by
  name, with the arguments in the order of the call. \<open>Mt5_symbols_get None\<close> is the call
  with no argument, \<open>Mt5_symbols_get (Some g)\<close> the call \<^verbatim>\<open>symbols_get(group=g)\<close>.
  The six functions that \<^verbatim>\<open>core.py\<close> hands to a helper as a function object are named
  by \<open>mt5_fn\<close>; \<open>Mt5_apply fn kw\<close> is a call of such a function.
\<close>

datatype mt5_fn =
    Fn_orders_get
  | Fn_positions_get
  | Fn_history_deals_get
  | Fn_history_orders_get
  | Fn_order_check
  | Fn_order_send

datatype mt5_call =
    Mt5_initialize kwargs
  | Mt5_login pyval kwargs
  | Mt5_shutdown
  | Mt5_version
  | Mt5_account_info
  | Mt5_terminal_info
  | Mt5_symbols_total
  | Mt5_symbols_get "pyval option"
  | Mt5_symbol_info pyval
  | Mt5_symbol_info_tick pyval
  | Mt5_symbol_select pyval pyval
  | Mt5_copy_rates_from pyval pyval pyval pyval
  | Mt5_copy_rates_from_pos pyval pyval pyval pyval
  | Mt5_copy_rates_range pyval pyval pyval pyval
  | Mt5_copy_ticks_from pyval pyval pyval pyval
  | Mt5_copy_ticks_range pyval pyval pyval pyval
  | Mt5_orders_total
  | Mt5_order_calc_margin pyval pyval pyval pyval
  | Mt5_order_calc_profit pyval pyval pyval pyval pyval
  | Mt5_positions_total
  | Mt5_history_orders_total pyval pyval
  | Mt5_history_deals_total pyval pyval
  | Mt5_apply mt5_fn kwargs

text \<open>
  What can be observed of a run: the calls into the library, the reads of its last
  error, and the lines handed to \<^verbatim>\<open>_state.log\<close>, in the order they happen.
\<close>

datatype event =
    Called mt5_call
  | Read_last_error
  | Logged string

text \<open>
  The library is closed: it is a parameter. \<open>respond\<close> answers a call in a state of
  the terminal with a value or an exception and the next state; \<open>lib_last_error\<close> reads
  the code and the description of the last error (\<^verbatim>\<open>Tuple[int, str]\<close>, line 102)
  and changes nothing.
\<close>

record 't mt5 =
  respond :: "mt5_call \<Rightarrow> 't \<Rightarrow> outcome \<times> 't"
  lib_last_error :: "'t \<Rightarrow> int \<times> string"

record 't world =
  terminal :: 't
  trace :: "event list"

type_synonym 't comp = "'t world \<Rightarrow> outcome \<times> 't world"

text \<open>
  \<^verbatim>\<open>_state\<close>, the global state object of \<^verbatim>\<open>pymt5adapter.state\<close>, as far as
  \<^verbatim>\<open>core.py\<close> reads it: three flags. Its \<^verbatim>\<open>log\<close> method is the event \<open>Logged\<close>.
\<close>

record adapter_state =
  force_namedtuple :: bool
  global_debugging :: bool
  raise_on_errors :: bool

text \<open>
  What \<^verbatim>\<open>core.py\<close> imports and this repository's sources do not show is a parameter:
  the constant \<^verbatim>\<open>const.RES_S_OK\<close>, the helpers \<^verbatim>\<open>_is_rates_array\<close>, \<^verbatim>\<open>_args_to_str\<close>
  and \<^verbatim>\<open>_clean_args\<close> (taken as pure functions), Python's \<^verbatim>\<open>str\<close> on a value, and
  the way the three helpers that receive a library function turn their arguments into
  the keyword arguments of the call.
\<close>

record env =
  RES_S_OK :: int
  is_rates_array :: "pyval \<Rightarrow> bool"
  args_to_str :: "pyval list \<Rightarrow> kwargs \<Rightarrow> string"
  py_str :: "pyval \<Rightarrow> string"
  clean_args :: "kwargs \<Rightarrow> kwargs"
  reshape_request :: "kwargs \<Rightarrow> kwargs"

section \<open>Python's protocols used by the adapter\<close>

text \<open>Iteration: \<open>None\<close> where Python raises \<^verbatim>\<open>TypeError\<close> (the object is not iterable).\<close>

fun py_iter :: "pyval \<Rightarrow> pyval list option" where
  "py_iter (PTuple xs) = Some xs"
| "py_iter (PList xs) = Some xs"
| "py_iter (PNdarray xs) = Some xs"
| "py_iter (PNamed n xs) = Some xs"
| "py_iter (PStr s) = Some (map (\<lambda>c. PStr [c]) s)"
| "py_iter (PDict kv) = Some (map (\<lambda>p. PStr (fst p)) kv)"
| "py_iter v = None"

text \<open>
  Truth value testing (\<^verbatim>\<open>if group\<close>): \<open>None\<close> where Python raises \<^verbatim>\<open>ValueError\<close>,
  the truth value of an array with more than one element.
\<close>

fun py_truthy :: "pyval \<Rightarrow> bool option" where
  "py_truthy PNone = Some False"
| "py_truthy (PBool b) = Some b"
| "py_truthy (PInt i) = Some (i \<noteq> 0)"
| "py_truthy (PFloat x) = Some (x \<noteq> 0)"
| "py_truthy (PStr s) = Some (s \<noteq> [])"
| "py_truthy (PTuple xs) = Some (xs \<noteq> [])"
| "py_truthy (PList xs) = Some (xs \<noteq> [])"
| "py_truthy (PDict kv) = Some (kv \<noteq> [])"
| "py_truthy (PNamed n xs) = Some (xs \<noteq> [])"
| "py_truthy (PObj s) = Some True"
| "py_truthy (PNdarray []) = Some False"
| "py_truthy (PNdarray [x]) = py_truthy x"
| "py_truthy (PNdarray (x # y # zs)) = None"

section \<open>Calls into the library\<close>

definition mt5_invoke :: "'t mt5 \<Rightarrow> mt5_call \<Rightarrow> 't comp" where
  "mt5_invoke lib c w =
     (case respond lib c (terminal w) of
        (r, t') \<Rightarrow> (r, \<lparr>terminal = t', trace = trace w @ [Called c]\<rparr>))"

text \<open>Lines 102 to 108: \<^verbatim>\<open>last_error\<close> returns \<^verbatim>\<open>_mt5.last_error()\<close>; it has no decorator.\<close>

definition last_error :: "'t mt5 \<Rightarrow> 't world \<Rightarrow> (int \<times> string) \<times> 't world" where
  "last_error lib w =
     (lib_last_error lib (terminal w),
      \<lparr>terminal = terminal w, trace = trace w @ [Read_last_error]\<rparr>)"

definition state_log :: "string \<Rightarrow> 't world \<Rightarrow> 't world" where
  "state_log msg w = \<lparr>terminal = terminal w, trace = trace w @ [Logged msg]\<rparr>"

section \<open>The decorator\<close>

text \<open>
  \<^verbatim>\<open>Rate\<close> is a named tuple type of \<^verbatim>\<open>pymt5adapter.types\<close>. Its fields are the eight
  columns the docstring of \<^verbatim>\<open>copy_rates_from\<close> names (time, open, high, low, close,
  tick_volume, spread, real_volume); any other number of arguments is a \<^verbatim>\<open>TypeError\<close>.
\<close>

definition Rate :: "pyval list \<Rightarrow> exn + pyval" where
  "Rate fs = (if length fs = 8 then Inr (PNamed ''Rate'' fs) else Inl TypeError)"

text \<open>\<^verbatim>\<open>Rate(*r)\<close>: the record is unpacked by iteration.\<close>

definition Rate_star :: "pyval \<Rightarrow> exn + pyval" where
  "Rate_star r = (case py_iter r of None \<Rightarrow> Inl TypeError | Some fs \<Rightarrow> Rate fs)"

text \<open>The comprehension of line 25 over the elements already obtained by iteration.\<close>

fun rates_of :: "pyval list \<Rightarrow> exn + pyval list" where
  "rates_of [] = Inr []"
| "rates_of (r # rs) =
     (case Rate_star r of
        Inl e \<Rightarrow> Inl e
      | Inr x \<Rightarrow> (case rates_of rs of Inl e \<Rightarrow> Inl e | Inr xs \<Rightarrow> Inr (x # xs)))"

text \<open>Lines 23 to 25: the result after the optional conversion to named tuples.\<close>

definition normalize_result :: "env \<Rightarrow> adapter_state \<Rightarrow> pyval \<Rightarrow> exn + pyval" where
  "normalize_result env st result =
     (if force_namedtuple st then
        (if is_rates_array env result then
           (case py_iter result of
              None \<Rightarrow> Inl TypeError
            | Some rs \<Rightarrow> (case rates_of rs of Inl e \<Rightarrow> Inl e | Inr xs \<Rightarrow> Inr (PList xs)))
         else Inr result)
      else Inr result)"

text \<open>
  Lines 27 and 28: the call signature, then \<^verbatim>\<open>last_error()\<close>, then the first 80
  characters of \<^verbatim>\<open>str(result)\<close>, joined into one line for \<^verbatim>\<open>_state.log\<close>.
\<close>

definition log_line :: "env \<Rightarrow> string \<Rightarrow> pyval list \<Rightarrow> kwargs \<Rightarrow> int \<times> string \<Rightarrow> pyval \<Rightarrow> string" where
  "log_line env fname args kw le result =
     ''['' @ (fname @ ''('' @ args_to_str env args kw @ '')'') @ ''][''
       @ py_str env (PTuple [PInt (fst le), PStr (snd le)]) @ ''][''
       @ take 80 (py_str env result) @ '']''"

definition debug_log :: "env \<Rightarrow> 't mt5 \<Rightarrow> string \<Rightarrow> pyval list \<Rightarrow> kwargs \<Rightarrow> pyval \<Rightarrow> 't world \<Rightarrow> 't world" where
  "debug_log env lib fname args kw result w =
     (case last_error lib w of (le, w') \<Rightarrow> state_log (log_line env fname args kw le result) w')"

text \<open>Lines 29 to 33: the error check and the return.\<close>

definition error_check :: "env \<Rightarrow> 't mt5 \<Rightarrow> adapter_state \<Rightarrow> pyval \<Rightarrow> 't comp" where
  "error_check env lib st result w =
     (if raise_on_errors st then
        (case last_error lib w of
           ((error_code, description), w') \<Rightarrow>
             if error_code \<noteq> RES_S_OK env then (Inl (MT5Error error_code description), w')
             else (Inr result, w'))
      else (Inr result, w))"

text \<open>
  Lines 19 to 35, \<^verbatim>\<open>_context_manager_modified\<close>: \<open>fname\<close> is \<^verbatim>\<open>f.__name__\<close>, \<open>args\<close> and
  \<open>kw\<close> the arguments as the caller wrote them, \<open>f\<close> the call \<^verbatim>\<open>f(*args, **kwargs)\<close>.
  An exception of \<open>f\<close> or of the conversion leaves the wrapper at once.
\<close>

definition context_manager_modified ::
  "env \<Rightarrow> 't mt5 \<Rightarrow> adapter_state \<Rightarrow> string \<Rightarrow> pyval list \<Rightarrow> kwargs \<Rightarrow> 't comp \<Rightarrow> 't comp" where
  "context_manager_modified env lib st fname args kw f w =
     (case f w of
        (Inl e, w1) \<Rightarrow> (Inl e, w1)
      | (Inr result, w1) \<Rightarrow>
          (case normalize_result env st result of
             Inl e \<Rightarrow> (Inl e, w1)
           | Inr result' \<Rightarrow>
               error_check env lib st result'
                 (if global_debugging st then debug_log env lib fname args kw result' w1 else w1)))"

section \<open>The forwarding functions\<close>

text \<open>
  Each function below is the body of the \<^verbatim>\<open>def\<close> of that name in \<^verbatim>\<open>core.py\<close>, before
  any decorator; the parameters are the Python parameters after binding, in the order
  of the signature, \<open>kwargs\<close> being the dictionary collected by \<^verbatim>\<open>**kwargs\<close>.
\<close>

text \<open>Lines 38 to 60. \<open>locals()\<close> holds the seven parameters by name.\<close>

definition initialize ::
  "env \<Rightarrow> 't mt5 \<Rightarrow> pyval \<Rightarrow> pyval \<Rightarrow> pyval \<Rightarrow> pyval \<Rightarrow> pyval \<Rightarrow> pyval \<Rightarrow> kwargs \<Rightarrow> 't comp" where
  "initialize env lib path login password server portable timeout kwargs =
     mt5_invoke lib (Mt5_initialize (clean_args env
       [(''path'', path), (''login'', login), (''password'', password), (''server'', server),
        (''portable'', portable), (''timeout'', timeout), (''kwargs'', PDict kwargs)]))"

text \<open>
  Lines 63 to 81. \<^verbatim>\<open>args.pop('login')\<close> raises \<^verbatim>\<open>KeyError\<close> when the cleaned dictionary
  has no such key; the call gets the dictionary without it.
\<close>

definition login :: "env \<Rightarrow> 't mt5 \<Rightarrow> pyval \<Rightarrow> pyval \<Rightarrow> pyval \<Rightarrow> pyval \<Rightarrow> kwargs \<Rightarrow> 't comp" where
  "login env lib login' password server timeout kwargs w =
     (let args = clean_args env
            [(''login'', login'), (''password'', password), (''server'', server),
             (''timeout'', timeout), (''kwargs'', PDict kwargs)]
      in case map_of args ''login'' of
           None \<Rightarrow> (Inl (KeyError ''login''), w)
         | Some l \<Rightarrow> mt5_invoke lib (Mt5_login l (filter (\<lambda>p. fst p \<noteq> ''login'') args)) w)"

definition shutdown :: "'t mt5 \<Rightarrow> 't comp" where
  "shutdown lib = mt5_invoke lib Mt5_shutdown"

definition version :: "'t mt5 \<Rightarrow> 't comp" where
  "version lib = mt5_invoke lib Mt5_version"

definition account_info :: "'t mt5 \<Rightarrow> 't comp" where
  "account_info lib = mt5_invoke lib Mt5_account_info"

definition terminal_info :: "'t mt5 \<Rightarrow> 't comp" where
  "terminal_info lib = mt5_invoke lib Mt5_terminal_info"

definition symbols_total :: "'t mt5 \<Rightarrow> 't comp" where
  "symbols_total lib = mt5_invoke lib Mt5_symbols_total"

text \<open>
  \<^verbatim>\<open>tuple(filter(function, symbols))\<close>: a \<^verbatim>\<open>TypeError\<close> when the value cannot be iterated.
  A predicate is taken as a total function to the truth value of what it returns.
\<close>

definition tuple_filter :: "(pyval \<Rightarrow> bool) \<Rightarrow> pyval \<Rightarrow> outcome" where
  "tuple_filter f v =
     (case py_iter v of None \<Rightarrow> Inl TypeError | Some xs \<Rightarrow> Inr (PTuple (filter f xs)))"

text \<open>
  Lines 139 to 157. \<open>function\<close> is \<open>None\<close> when the argument is left at its default
  \<^verbatim>\<open>None\<close>; a function object is true.
\<close>

definition symbols_get ::
  "'t mt5 \<Rightarrow> pyval \<Rightarrow> (pyval \<Rightarrow> bool) option \<Rightarrow> kwargs \<Rightarrow> 't comp" where
  "symbols_get lib group' function kwargs w =
     (case py_truthy group' of
        None \<Rightarrow> (Inl ValueError, w)
      | Some b \<Rightarrow>
          (case mt5_invoke lib (if b then Mt5_symbols_get (Some group') else Mt5_symbols_get None) w of
             (Inl e, w') \<Rightarrow> (Inl e, w')
           | (Inr symbols, w') \<Rightarrow>
               (case function of
                  None \<Rightarrow> (Inr symbols, w')
                | Some f \<Rightarrow> (tuple_filter f symbols, w'))))"

definition symbol_info :: "'t mt5 \<Rightarrow> pyval \<Rightarrow> 't comp" where
  "symbol_info lib symbol = mt5_invoke lib (Mt5_symbol_info symbol)"

definition symbol_info_tick :: "'t mt5 \<Rightarrow> pyval \<Rightarrow> 't comp" where
  "symbol_info_tick lib symbol = mt5_invoke lib (Mt5_symbol_info_tick symbol)"

definition symbol_select :: "'t mt5 \<Rightarrow> pyval \<Rightarrow> pyval \<Rightarrow> 't comp" where
  "symbol_select lib symbol enable = mt5_invoke lib (Mt5_symbol_select symbol enable)"

text \<open>\<^verbatim>\<open>try: return ... except SystemError: return None\<close>.\<close>

definition except_SystemError :: "'t comp \<Rightarrow> 't comp" where
  "except_SystemError f w =
     (case f w of (r, w') \<Rightarrow> (if r = Inl SystemError then Inr PNone else r, w'))"

definition copy_rates_from :: "'t mt5 \<Rightarrow> pyval \<Rightarrow> pyval \<Rightarrow> pyval \<Rightarrow> pyval \<Rightarrow> 't comp" where
  "copy_rates_from lib symbol timeframe datetime_from count =
     except_SystemError (mt5_invoke lib (Mt5_copy_rates_from symbol timeframe datetime_from count))"

definition copy_rates_from_pos :: "'t mt5 \<Rightarrow> pyval \<Rightarrow> pyval \<Rightarrow> pyval \<Rightarrow> pyval \<Rightarrow> 't comp" where
  "copy_rates_from_pos lib symbol timeframe start_pos count =
     except_SystemError (mt5_invoke lib (Mt5_copy_rates_from_pos symbol timeframe start_pos count))"

definition copy_rates_range :: "'t mt5 \<Rightarrow> pyval \<Rightarrow> pyval \<Rightarrow> pyval \<Rightarrow> pyval \<Rightarrow> 't comp" where
  "copy_rates_range lib symbol timeframe datetime_from datetime_to =
     except_SystemError (mt5_invoke lib (Mt5_copy_rates_range symbol timeframe datetime_from datetime_to))"

text \<open>Lines 276 to 278, reached when neither \<^verbatim>\<open>return\<close> of lines 273 and 275 was.\<close>

definition copy_rates_by_pos ::
  "'t mt5 \<Rightarrow> pyval \<Rightarrow> pyval \<Rightarrow> pyval \<Rightarrow> pyval \<Rightarrow> pyval \<Rightarrow> pyval \<Rightarrow> 't comp" where
  "copy_rates_by_pos lib symbol timeframe datetime_from datetime_to start_pos count =
     (if list_all (\<lambda>x. x = PNone) [datetime_from, datetime_to, start_pos, count]
      then mt5_invoke lib (Mt5_copy_rates_from_pos symbol timeframe (PInt 3000) (PInt 0))
      else mt5_invoke lib (Mt5_copy_rates_from_pos symbol timeframe start_pos count))"

text \<open>Lines 251 to 280.\<close>

definition copy_rates ::
  "'t mt5 \<Rightarrow> pyval \<Rightarrow> pyval \<Rightarrow> pyval \<Rightarrow> pyval \<Rightarrow> pyval \<Rightarrow> pyval \<Rightarrow> 't comp" where
  "copy_rates lib symbol timeframe datetime_from datetime_to start_pos count =
     except_SystemError
       (if datetime_from \<noteq> PNone then
          (if count \<noteq> PNone then
             mt5_invoke lib (Mt5_copy_rates_from symbol timeframe datetime_from count)
           else if datetime_to \<noteq> PNone then
             mt5_invoke lib (Mt5_copy_rates_range symbol timeframe datetime_from datetime_to)
           else copy_rates_by_pos lib symbol timeframe datetime_from datetime_to start_pos count)
        else copy_rates_by_pos lib symbol timeframe datetime_from datetime_to start_pos count)"

definition copy_ticks_from :: "'t mt5 \<Rightarrow> pyval \<Rightarrow> pyval \<Rightarrow> pyval \<Rightarrow> pyval \<Rightarrow> 't comp" where
  "copy_ticks_from lib symbol datetime_from count flags =
     except_SystemError (mt5_invoke lib (Mt5_copy_ticks_from symbol datetime_from count flags))"

definition copy_ticks_range :: "'t mt5 \<Rightarrow> pyval \<Rightarrow> pyval \<Rightarrow> pyval \<Rightarrow> pyval \<Rightarrow> 't comp" where
  "copy_ticks_range lib symbol datetime_from datetime_to flags =
     except_SystemError (mt5_invoke lib (Mt5_copy_ticks_range symbol datetime_from datetime_to flags))"

definition orders_total :: "'t mt5 \<Rightarrow> 't comp" where
  "orders_total lib = mt5_invoke lib Mt5_orders_total"

definition order_calc_margin :: "'t mt5 \<Rightarrow> pyval \<Rightarrow> pyval \<Rightarrow> pyval \<Rightarrow> pyval \<Rightarrow> 't comp" where
  "order_calc_margin lib order_type symbol volume price =
     mt5_invoke lib (Mt5_order_calc_margin order_type symbol volume price)"

definition order_calc_profit ::
  "'t mt5 \<Rightarrow> pyval \<Rightarrow> pyval \<Rightarrow> pyval \<Rightarrow> pyval \<Rightarrow> pyval \<Rightarrow> 't comp" where
  "order_calc_profit lib order_type symbol volume price_open price_close =
     mt5_invoke lib (Mt5_order_calc_profit order_type symbol volume price_open price_close)"

definition positions_total :: "'t mt5 \<Rightarrow> 't comp" where
  "positions_total lib = mt5_invoke lib Mt5_positions_total"

text \<open>Lines 528 to 549: \<^verbatim>\<open>**kwargs\<close> is accepted and not used.\<close>

definition history_orders_total :: "'t mt5 \<Rightarrow> pyval \<Rightarrow> pyval \<Rightarrow> kwargs \<Rightarrow> 't comp" where
  "history_orders_total lib datetime_from datetime_to kwargs =
     mt5_invoke lib (Mt5_history_orders_total datetime_from datetime_to)"

definition history_deals_total :: "'t mt5 \<Rightarrow> pyval \<Rightarrow> pyval \<Rightarrow> kwargs \<Rightarrow> 't comp" where
  "history_deals_total lib datetime_from datetime_to kwargs =
     mt5_invoke lib (Mt5_history_deals_total datetime_from datetime_to)"

subsection \<open>Functions that go through a helper of \<^verbatim>\<open>pymt5adapter.helpers\<close>\<close>

text \<open>
  Modelled from the spec: \<^verbatim>\<open>helpers._get_ticket_type_stuff\<close> and
  \<^verbatim>\<open>helpers._get_history_type_stuff\<close> are not in the sources. The spec describes the
  forwarding functions as reshaping keyword arguments before delegating to the external
  library, and the helpers as argument cleaning and filtering result tuples by a
  user-supplied predicate: the arguments are cleaned, the library function received is
  called with them, and its tuple is filtered when a predicate was given.
\<close>

definition get_type_stuff ::
  "env \<Rightarrow> 't mt5 \<Rightarrow> mt5_fn \<Rightarrow> kwargs \<Rightarrow> (pyval \<Rightarrow> bool) option \<Rightarrow> 't comp" where
  "get_type_stuff env lib fn d function w =
     (case mt5_invoke lib (Mt5_apply fn (clean_args env d)) w of
        (Inl e, w') \<Rightarrow> (Inl e, w')
      | (Inr r, w') \<Rightarrow>
          (case function of None \<Rightarrow> (Inr r, w') | Some f \<Rightarrow> (tuple_filter f r, w')))"

text \<open>
  Modelled from the spec: \<^verbatim>\<open>helpers._do_trade_action\<close> is not in the sources. By the
  spec it reshapes the keyword arguments and delegates to the library function received.
\<close>

definition do_trade_action :: "env \<Rightarrow> 't mt5 \<Rightarrow> mt5_fn \<Rightarrow> kwargs \<Rightarrow> 't comp" where
  "do_trade_action env lib fn d = mt5_invoke lib (Mt5_apply fn (reshape_request env d))"

text \<open>Lines 342 to 362 and 484 to 500: the helper gets four keyword arguments.\<close>

definition orders_get ::
  "env \<Rightarrow> 't mt5 \<Rightarrow> pyval \<Rightarrow> pyval \<Rightarrow> pyval \<Rightarrow> (pyval \<Rightarrow> bool) option \<Rightarrow> kwargs \<Rightarrow> 't comp" where
  "orders_get env lib symbol group' ticket function kwargs =
     get_type_stuff env lib Fn_orders_get
       [(''symbol'', symbol), (''group'', group'), (''ticket'', ticket)] function"

definition positions_get ::
  "env \<Rightarrow> 't mt5 \<Rightarrow> pyval \<Rightarrow> pyval \<Rightarrow> pyval \<Rightarrow> (pyval \<Rightarrow> bool) option \<Rightarrow> kwargs \<Rightarrow> 't comp" where
  "positions_get env lib symbol group' ticket function kwargs =
     get_type_stuff env lib Fn_positions_get
       [(''symbol'', symbol), (''group'', group'), (''ticket'', ticket)] function"

text \<open>
  Lines 503 to 525 and 552 to 574: the helper gets \<open>locals()\<close>; its entry \<open>function\<close>,
  a function object, is carried beside the dictionary.
\<close>

definition history_deals_get ::
  "env \<Rightarrow> 't mt5 \<Rightarrow> pyval \<Rightarrow> pyval \<Rightarrow> pyval \<Rightarrow> pyval \<Rightarrow> pyval \<Rightarrow> (pyval \<Rightarrow> bool) option \<Rightarrow> kwargs \<Rightarrow> 't comp" where
  "history_deals_get env lib datetime_from datetime_to group' ticket position function kwargs =
     get_type_stuff env lib Fn_history_deals_get
       [(''datetime_from'', datetime_from), (''datetime_to'', datetime_to), (''group'', group'),
        (''ticket'', ticket), (''position'', position), (''kwargs'', PDict kwargs)] function"

definition history_orders_get ::
  "env \<Rightarrow> 't mt5 \<Rightarrow> pyval \<Rightarrow> pyval \<Rightarrow> pyval \<Rightarrow> pyval \<Rightarrow> pyval \<Rightarrow> (pyval \<Rightarrow> bool) option \<Rightarrow> kwargs \<Rightarrow> 't comp" where
  "history_orders_get env lib datetime_from datetime_to group' ticket position function kwargs =
     get_type_stuff env lib Fn_history_orders_get
       [(''datetime_from'', datetime_from), (''datetime_to'', datetime_to), (''group'', group'),
        (''ticket'', ticket), (''position'', position), (''kwargs'', PDict kwargs)] function"

text \<open>
  Lines 400 to 472: \<open>d\<close> is \<open>locals()\<close>, the parameters \<open>request\<close>, \<open>action\<close>, \<open>magic\<close>,
  \<open>order\<close>, \<open>symbol\<close>, \<open>volume\<close>, \<open>price\<close>, \<open>stoplimit\<close>, \<open>sl\<close>, \<open>tp\<close>, \<open>deviation\<close>, \<open>type\<close>,
  \<open>type_filling\<close>, \<open>type_time\<close>, \<open>expiration\<close>, \<open>comment\<close>, \<open>position\<close>, \<open>position_by\<close> and
  \<open>kwargs\<close> by name.
\<close>

definition order_check :: "env \<Rightarrow> 't mt5 \<Rightarrow> kwargs \<Rightarrow> 't comp" where
  "order_check env lib d = do_trade_action env lib Fn_order_check d"

definition order_send :: "env \<Rightarrow> 't mt5 \<Rightarrow> kwargs \<Rightarrow> 't comp" where
  "order_send env lib d = do_trade_action env lib Fn_order_send d"

section \<open>The public interface\<close>

text \<open>
  A call of a public function of the module, with its parameters bound: one constructor
  for each \<^verbatim>\<open>def\<close> of \<^verbatim>\<open>core.py\<close> at module level, in the order of the file.
\<close>

datatype adapter_op =
    Op_initialize pyval pyval pyval pyval pyval pyval kwargs
  | Op_login pyval pyval pyval pyval kwargs
  | Op_shutdown
  | Op_version
  | Op_last_error
  | Op_account_info
  | Op_terminal_info
  | Op_symbols_total
  | Op_symbols_get pyval "(pyval \<Rightarrow> bool) option" kwargs
  | Op_symbol_info pyval
  | Op_symbol_info_tick pyval
  | Op_symbol_select pyval pyval
  | Op_copy_rates_from pyval pyval pyval pyval
  | Op_copy_rates_from_pos pyval pyval pyval pyval
  | Op_copy_rates_range pyval pyval pyval pyval
  | Op_copy_rates pyval pyval pyval pyval pyval pyval
  | Op_copy_ticks_from pyval pyval pyval pyval
  | Op_copy_ticks_range pyval pyval pyval pyval
  | Op_orders_total
  | Op_orders_get pyval pyval pyval "(pyval \<Rightarrow> bool) option" kwargs
  | Op_order_calc_margin pyval pyval pyval pyval
  | Op_order_calc_profit pyval pyval pyval pyval pyval
  | Op_order_check kwargs
  | Op_order_send kwargs
  | Op_positions_total
  | Op_positions_get pyval pyval pyval "(pyval \<Rightarrow> bool) option" kwargs
  | Op_history_deals_get pyval pyval pyval pyval pyval "(pyval \<Rightarrow> bool) option" kwargs
  | Op_history_orders_total pyval pyval kwargs
  | Op_history_deals_total pyval pyval kwargs
  | Op_history_orders_get pyval pyval pyval pyval pyval "(pyval \<Rightarrow> bool) option" kwargs

text \<open>\<^verbatim>\<open>f.__name__\<close>.\<close>

fun op_name :: "adapter_op \<Rightarrow> string" where
  "op_name (Op_initialize a b c d e f k) = ''initialize''"
| "op_name (Op_login a b c d k) = ''login''"
| "op_name Op_shutdown = ''shutdown''"
| "op_name Op_version = ''version''"
| "op_name Op_last_error = ''last_error''"
| "op_name Op_account_info = ''account_info''"
| "op_name Op_terminal_info = ''terminal_info''"
| "op_name Op_symbols_total = ''symbols_total''"
| "op_name (Op_symbols_get g f k) = ''symbols_get''"
| "op_name (Op_symbol_info a) = ''symbol_info''"
| "op_name (Op_symbol_info_tick a) = ''symbol_info_tick''"
| "op_name (Op_symbol_select a b) = ''symbol_select''"
| "op_name (Op_copy_rates_from a b c d) = ''copy_rates_from''"
| "op_name (Op_copy_rates_from_pos a b c d) = ''copy_rates_from_pos''"
| "op_name (Op_copy_rates_range a b c d) = ''copy_rates_range''"
| "op_name (Op_copy_rates a b c d e f) = ''copy_rates''"
| "op_name (Op_copy_ticks_from a b c d) = ''copy_ticks_from''"
| "op_name (Op_copy_ticks_range a b c d) = ''copy_ticks_range''"
| "op_name Op_orders_total = ''orders_total''"
| "op_name (Op_orders_get a b c f k) = ''orders_get''"
| "op_name (Op_order_calc_margin a b c d) = ''order_calc_margin''"
| "op_name (Op_order_calc_profit a b c d e) = ''order_calc_profit''"
| "op_name (Op_order_check d) = ''order_check''"
| "op_name (Op_order_send d) = ''order_send''"
| "op_name Op_positions_total = ''positions_total''"
| "op_name (Op_positions_get a b c f k) = ''positions_get''"
| "op_name (Op_history_deals_get a b c d e f k) = ''history_deals_get''"
| "op_name (Op_history_orders_total a b k) = ''history_orders_total''"
| "op_name (Op_history_deals_total a b k) = ''history_deals_total''"
| "op_name (Op_history_orders_get a b c d e f k) = ''history_orders_get''"

text \<open>The value \<^verbatim>\<open>last_error()\<close> returns to a caller: the tuple of the library.\<close>

definition last_error_tuple :: "'t mt5 \<Rightarrow> 't comp" where
  "last_error_tuple lib w =
     (case last_error lib w of ((c, d), w') \<Rightarrow> (Inr (PTuple [PInt c, PStr d]), w'))"

text \<open>The body each public function runs.\<close>

fun body :: "env \<Rightarrow> 't mt5 \<Rightarrow> adapter_op \<Rightarrow> 't comp" where
  "body env lib (Op_initialize a b c d e f k) = initialize env lib a b c d e f k"
| "body env lib (Op_login a b c d k) = login env lib a b c d k"
| "body env lib Op_shutdown = shutdown lib"
| "body env lib Op_version = version lib"
| "body env lib Op_last_error = last_error_tuple lib"
| "body env lib Op_account_info = account_info lib"
| "body env lib Op_terminal_info = terminal_info lib"
| "body env lib Op_symbols_total = symbols_total lib"
| "body env lib (Op_symbols_get g f k) = symbols_get lib g f k"
| "body env lib (Op_symbol_info a) = symbol_info lib a"
| "body env lib (Op_symbol_info_tick a) = symbol_info_tick lib a"
| "body env lib (Op_symbol_select a b) = symbol_select lib a b"
| "body env lib (Op_copy_rates_from a b c d) = copy_rates_from lib a b c d"
| "body env lib (Op_copy_rates_from_pos a b c d) = copy_rates_from_pos lib a b c d"
| "body env lib (Op_copy_rates_range a b c d) = copy_rates_range lib a b c d"
| "body env lib (Op_copy_rates a b c d e f) = copy_rates lib a b c d e f"
| "body env lib (Op_copy_ticks_from a b c d) = copy_ticks_from lib a b c d"
| "body env lib (Op_copy_ticks_range a b c d) = copy_ticks_range lib a b c d"
| "body env lib Op_orders_total = orders_total lib"
| "body env lib (Op_orders_get a b c f k) = orders_get env lib a b c f k"
| "body env lib (Op_order_calc_margin a b c d) = order_calc_margin lib a b c d"
| "body env lib (Op_order_calc_profit a b c d e) = order_calc_profit lib a b c d e"
| "body env lib (Op_order_check d) = order_check env lib d"
| "body env lib (Op_order_send d) = order_send env lib d"
| "body env lib Op_positions_total = positions_total lib"
| "body env lib (Op_positions_get a b c f k) = positions_get env lib a b c f k"
| "body env lib (Op_history_deals_get a b c d e f k) = history_deals_get env lib a b c d e f k"
| "body env lib (Op_history_orders_total a b k) = history_orders_total lib a b k"
| "body env lib (Op_history_deals_total a b k) = history_deals_total lib a b k"
| "body env lib (Op_history_orders_get a b c d e f k) = history_orders_get env lib a b c d e f k"

text \<open>
  Whether the \<^verbatim>\<open>def\<close> carries \<^verbatim>\<open>@_context_manager_modified\<close>: every one does but
  \<^verbatim>\<open>last_error\<close> (line 102), which the wrapper itself calls.
\<close>

fun decorated :: "adapter_op \<Rightarrow> bool" where
  "decorated Op_last_error = False"
| "decorated other = True"

text \<open>
  The function a caller of the module gets: \<open>args\<close> and \<open>kw\<close> are the arguments as
  written at the call, of which the wrapper makes the call signature of its log line.
\<close>

definition exposed ::
  "env \<Rightarrow> 't mt5 \<Rightarrow> adapter_state \<Rightarrow> pyval list \<Rightarrow> kwargs \<Rightarrow> adapter_op \<Rightarrow> 't comp" where
  "exposed env lib st args kw op =
     (if decorated op
      then context_manager_modified env lib st (op_name op) args kw (body env lib op)
      else body env lib op)"

section \<open>What the specification says of the forwarding functions\<close>

text \<open>
  The choice of the library call by \<^verbatim>\<open>copy_rates\<close> in the words of the specification:
  both \<open>datetime_from\<close> and \<open>count\<close> given; else both \<open>datetime_from\<close> and \<open>datetime_to\<close>
  given; all four absent; otherwise.
\<close>

definition copy_rates_dispatch ::
  "pyval \<Rightarrow> pyval \<Rightarrow> pyval \<Rightarrow> pyval \<Rightarrow> pyval \<Rightarrow> pyval \<Rightarrow> mt5_call" where
  "copy_rates_dispatch symbol timeframe datetime_from datetime_to start_pos count =
     (if datetime_from \<noteq> PNone \<and> count \<noteq> PNone
      then Mt5_copy_rates_from symbol timeframe datetime_from count
      else if datetime_from \<noteq> PNone \<and> datetime_to \<noteq> PNone
      then Mt5_copy_rates_range symbol timeframe datetime_from datetime_to
      else if datetime_from = PNone \<and> datetime_to = PNone \<and> start_pos = PNone \<and> count = PNone
      then Mt5_copy_rates_from_pos symbol timeframe (PInt 3000) (PInt 0)
      else Mt5_copy_rates_from_pos symbol timeframe start_pos count)"





text \<open>
  How the returned value is derived from the reply of that call: a \<^verbatim>\<open>SystemError\<close> of
  the six copy functions becomes \<^verbatim>\<open>None\<close>, a tuple is filtered by the predicate given
  (a reply that cannot be iterated is a \<^verbatim>\<open>TypeError\<close>), anything else is passed on.
  These are written out here, apart from the functions of the code.
\<close>

definition none_on_SystemError :: "outcome \<Rightarrow> outcome" where
  "none_on_SystemError r = (if r = Inl SystemError then Inr PNone else r)"

definition filtered_by :: "(pyval \<Rightarrow> bool) option \<Rightarrow> outcome \<Rightarrow> outcome" where
  "filtered_by function r =
     (case r of
        Inl e \<Rightarrow> Inl e
      | Inr v \<Rightarrow>
          (case function of
             None \<Rightarrow> Inr v
           | Some f \<Rightarrow>
               (case py_iter v of
                  None \<Rightarrow> Inl TypeError
                | Some xs \<Rightarrow> Inr (PTuple (filter f xs)))))"


text \<open>
  An array-like rate record is a value that unpacks into the eight fields of \<^verbatim>\<open>Rate\<close>;
  \<open>as_Rate\<close> is the named tuple of its fields.
\<close>

definition rate_record :: "pyval \<Rightarrow> bool" where
  "rate_record r = (case py_iter r of None \<Rightarrow> False | Some fs \<Rightarrow> length fs = 8)"

definition as_Rate :: "pyval \<Rightarrow> pyval" where
  "as_Rate r = PNamed ''Rate'' (case py_iter r of None \<Rightarrow> [] | Some fs \<Rightarrow> fs)"

section \<open>A sample library and environment\<close>

text \<open>
  A library whose terminal state is the reply it gives to every call together with
  its last error, and an environment with \<open>RES_S_OK = 1\<close>, a cleaning that drops the
  entries whose value is \<^verbatim>\<open>None\<close>, and an array test that accepts every numpy array.
  They serve to run the theorems on concrete calls.
\<close>

definition scripted :: "(outcome \<times> int \<times> string) mt5" where
  "scripted = \<lparr>respond = (\<lambda>c t. (fst t, t)), lib_last_error = snd\<rparr>"

definition sample_env :: env where
  "sample_env =
     \<lparr>RES_S_OK = 1,
      is_rates_array = (\<lambda>v. case v of PNdarray rs \<Rightarrow> True | _ \<Rightarrow> False),
      args_to_str = (\<lambda>args kw. []),
      py_str = (\<lambda>v. ''result''),
      clean_args = filter (\<lambda>p. snd p \<noteq> PNone),
      reshape_request = filter (\<lambda>p. snd p \<noteq> PNone)\<rparr>"

definition flags :: "bool \<Rightarrow> bool \<Rightarrow> bool \<Rightarrow> adapter_state" where
  "flags n d r = \<lparr>force_namedtuple = n, global_debugging = d, raise_on_errors = r\<rparr>"

definition start :: "outcome \<Rightarrow> int \<Rightarrow> string \<Rightarrow> (outcome \<times> int \<times> string) world" where
  "start reply code description = \<lparr>terminal = (reply, code, description), trace = []\<rparr>"

section \<open>Facts about calls, the conversion and the error check\<close>

lemma mt5_invoke_fst: "fst (mt5_invoke lib c w) = fst (respond lib c (terminal w))"
  by (simp add: mt5_invoke_def split: prod.split)

lemma mt5_invoke_world:
  "snd (mt5_invoke lib c w) =
     \<lparr>terminal = snd (respond lib c (terminal w)), trace = trace w @ [Called c]\<rparr>"
  by (simp add: mt5_invoke_def split: prod.split)

lemma except_SystemError_eq:
  "except_SystemError f w = (none_on_SystemError (fst (f w)), snd (f w))"
  by (simp add: except_SystemError_def none_on_SystemError_def split: prod.split)

lemma rates_of_records: "list_all rate_record recs \<Longrightarrow> rates_of recs = Inr (map as_Rate recs)"
  by (induction recs) (auto simp: rate_record_def as_Rate_def Rate_star_def Rate_def split: option.splits)

lemma normalize_rates:
  assumes "force_namedtuple st" "is_rates_array env result" "py_iter result = Some recs"
    "list_all rate_record recs"
  shows "normalize_result env st result = Inr (PList (map as_Rate recs))"
  using assms by (simp add: normalize_result_def rates_of_records)

lemma normalize_unchanged:
  "\<not> (force_namedtuple st \<and> is_rates_array env result) \<Longrightarrow> normalize_result env st result = Inr result"
  by (auto simp: normalize_result_def)

lemma debug_log_terminal: "terminal (debug_log env lib fname args kw r w) = terminal w"
  by (simp add: debug_log_def last_error_def state_log_def)

lemma debug_log_trace:
  "trace (debug_log env lib fname args kw r w) =
     trace w @ [Read_last_error, Logged (log_line env fname args kw (lib_last_error lib (terminal w)) r)]"
  by (simp add: debug_log_def last_error_def state_log_def)

lemma error_check_fst:
  "lib_last_error lib (terminal w) = (code, description) \<Longrightarrow>
   fst (error_check env lib st r w) =
     (if raise_on_errors st \<and> code \<noteq> RES_S_OK env then Inl (MT5Error code description) else Inr r)"
  by (simp add: error_check_def last_error_def)

lemma wrapper_returned:
  assumes "f w = (Inr result, w1)" "normalize_result env st result = Inr result'"
  shows "context_manager_modified env lib st fname args kw f w =
     error_check env lib st result'
       (if global_debugging st then debug_log env lib fname args kw result' w1 else w1)"
  using assms by (simp add: context_manager_modified_def)

lemma wrapper_outcome:
  assumes "f w = (Inr result, w1)" "normalize_result env st result = Inr result'"
    "lib_last_error lib (terminal w1) = (code, description)"
  shows "fst (context_manager_modified env lib st fname args kw f w) =
     (if raise_on_errors st \<and> code \<noteq> RES_S_OK env then Inl (MT5Error code description)
      else Inr result')"
  using assms
  by (simp add: wrapper_returned error_check_fst debug_log_terminal)

lemma copy_rates_dispatches:
  "copy_rates lib s tf df dt sp c =
     except_SystemError (mt5_invoke lib (copy_rates_dispatch s tf df dt sp c))"
  by (simp add: copy_rates_def copy_rates_by_pos_def copy_rates_dispatch_def)

lemma symbols_get_eq:
  "py_truthy g = Some b \<Longrightarrow>
   symbols_get lib g fn k w =
     (case mt5_invoke lib (Mt5_symbols_get (if b then Some g else None)) w of
        (r, w') \<Rightarrow> (filtered_by fn r, w'))"
  by (simp add: symbols_get_def filtered_by_def tuple_filter_def
      split: prod.split sum.split option.split)




lemma invoke_case_trace:
  "trace (snd (case mt5_invoke lib c w of (r, w') \<Rightarrow> (h r, w'))) = trace w @ [Called c]"
  by (simp add: mt5_invoke_def split: prod.split)





lemma guarded_call_outcome:
  assumes "respond lib c (terminal w) = (r, t')"
    and "lib_last_error lib t' = (code, description)"
  shows "(r = Inl SystemError \<longrightarrow> fst (except_SystemError (mt5_invoke lib c) w) = Inr PNone)
       \<and> (r = Inl SystemError \<and> \<not> (force_namedtuple st \<and> is_rates_array env PNone) \<longrightarrow>
            fst (context_manager_modified env lib st fname args kw
                   (except_SystemError (mt5_invoke lib c)) w) =
              (if raise_on_errors st \<and> code \<noteq> RES_S_OK env then Inl (MT5Error code description)
               else Inr PNone))
       \<and> (r = Inl e \<and> e \<noteq> SystemError \<longrightarrow>
            fst (except_SystemError (mt5_invoke lib c) w) = Inl e
            \<and> fst (context_manager_modified env lib st fname args kw
                   (except_SystemError (mt5_invoke lib c)) w) = Inl e)"
proof (intro conjI impI)
  assume s: "r = Inl SystemError"
  with assms(1) show "fst (except_SystemError (mt5_invoke lib c) w) = Inr PNone"
    by (simp add: except_SystemError_def mt5_invoke_def)
next
  assume s: "r = Inl SystemError \<and> \<not> (force_namedtuple st \<and> is_rates_array env PNone)"
  let ?w1 = "\<lparr>terminal = t', trace = trace w @ [Called c]\<rparr>"
  have f: "except_SystemError (mt5_invoke lib c) w = (Inr PNone, ?w1)"
    using s assms(1) by (simp add: except_SystemError_def mt5_invoke_def)
  have n: "normalize_result env st PNone = Inr PNone"
    using s by (simp add: normalize_unchanged)
  have l: "lib_last_error lib (terminal ?w1) = (code, description)"
    using assms(2) by simp
  show "fst (context_manager_modified env lib st fname args kw
               (except_SystemError (mt5_invoke lib c)) w) =
          (if raise_on_errors st \<and> code \<noteq> RES_S_OK env then Inl (MT5Error code description)
           else Inr PNone)"
    by (rule wrapper_outcome [where f = "except_SystemError (mt5_invoke lib c)" and w = w,
          OF f n l])
next
  assume o: "r = Inl e \<and> e \<noteq> SystemError"
  with assms(1) show "fst (except_SystemError (mt5_invoke lib c) w) = Inl e"
    by (simp add: except_SystemError_def mt5_invoke_def)
next
  assume o: "r = Inl e \<and> e \<noteq> SystemError"
  with assms(1) show "fst (context_manager_modified env lib st fname args kw
               (except_SystemError (mt5_invoke lib c)) w) = Inl e"
    by (simp add: context_manager_modified_def except_SystemError_def mt5_invoke_def)
qed

section \<open>The wrapper without its optional behaviours\<close>

text \<open>
  C7. With \<open>force_namedtuple\<close>, \<open>global_debugging\<close> and \<open>raise_on_errors\<close> all off, the
  wrapped call is the call: the same value (or the same exception), the same state of
  the terminal, the same events, for every wrapped function and every argument.
\<close>

theorem wrapper_identity_when_off:
  assumes "\<not> force_namedtuple st" and "\<not> global_debugging st" and "\<not> raise_on_errors st"
  shows "context_manager_modified env lib st fname args kw f w = f w"
  using assms
  by (simp add: context_manager_modified_def normalize_result_def error_check_def
      split: prod.split sum.split)

theorem wrapper_identity_when_off_witness:
  "context_manager_modified sample_env scripted (flags False False False) ''version'' [] []
     (version scripted) (start (Inr (PTuple [PInt 500, PInt 2361, PStr ''21 Feb 2020''])) 1 ''Success'')
   = (Inr (PTuple [PInt 500, PInt 2361, PStr ''21 Feb 2020'']),
      \<lparr>terminal = (Inr (PTuple [PInt 500, PInt 2361, PStr ''21 Feb 2020'']), 1, ''Success''),
       trace = [Called Mt5_version]\<rparr>)"
proof -
  have off: "\<not> force_namedtuple (flags False False False)"
    "\<not> global_debugging (flags False False False)"
    "\<not> raise_on_errors (flags False False False)"
    by (simp_all add: flags_def)
  show ?thesis
    unfolding wrapper_identity_when_off [OF off]
    by (simp add: version_def mt5_invoke_def scripted_def start_def)
qed

section \<open>Error translation\<close>

text \<open>
  C1. Let the wrapped function return \<open>result\<close>, let \<open>result'\<close> be the result after the
  optional conversion, and let the library report \<open>(code, description)\<close> as its last
  error after the call. With \<open>raise_on_errors\<close> on, the wrapper raises \<open>MT5Error\<close> with
  that code and description exactly when the code differs from \<open>RES_S_OK\<close>. When the
  flag is off or the code is \<open>RES_S_OK\<close>, it returns \<open>result'\<close>. It raises an \<open>MT5Error\<close>
  of any content only when the flag is on and the code differs from \<open>RES_S_OK\<close>.
\<close>

theorem error_translation:
  assumes "f w = (Inr result, w1)"
    and "normalize_result env st result = Inr result'"
    and "lib_last_error lib (terminal w1) = (code, description)"
  shows "(raise_on_errors st \<longrightarrow>
            (fst (context_manager_modified env lib st fname args kw f w)
               = Inl (MT5Error code description)) = (code \<noteq> RES_S_OK env))
       \<and> (\<not> raise_on_errors st \<or> code = RES_S_OK env \<longrightarrow>
            fst (context_manager_modified env lib st fname args kw f w) = Inr result')
       \<and> ((\<exists>c d. fst (context_manager_modified env lib st fname args kw f w) = Inl (MT5Error c d))
            = (raise_on_errors st \<and> code \<noteq> RES_S_OK env))"
  using wrapper_outcome [where f = f and w = w, OF assms, of fname args kw] by auto

theorem error_translation_witness:
  "fst (context_manager_modified sample_env scripted (flags False False True) ''account_info'' [] []
          (account_info scripted) (start (Inr PNone) (- 1) ''Terminal: Call failed''))
     = Inl (MT5Error (- 1) ''Terminal: Call failed'')
   \<and> fst (context_manager_modified sample_env scripted (flags False False True) ''symbols_total'' [] []
          (symbols_total scripted) (start (Inr (PInt 7)) 1 ''Success''))
     = Inr (PInt 7)"
proof -
  have a: "account_info scripted (start (Inr PNone) (- 1) ''Terminal: Call failed'')
      = (Inr PNone, \<lparr>terminal = (Inr PNone, - 1, ''Terminal: Call failed''),
                     trace = [Called Mt5_account_info]\<rparr>)"
    by (simp add: account_info_def mt5_invoke_def scripted_def start_def)
  have b: "symbols_total scripted (start (Inr (PInt 7)) 1 ''Success'')
      = (Inr (PInt 7), \<lparr>terminal = (Inr (PInt 7), 1, ''Success''),
                         trace = [Called Mt5_symbols_total]\<rparr>)"
    by (simp add: symbols_total_def mt5_invoke_def scripted_def start_def)
  have n: "normalize_result sample_env (flags False False True) v = Inr v" for v
    by (simp add: normalize_result_def flags_def)
  have la: "lib_last_error scripted
      (terminal \<lparr>terminal = (Inr PNone, - 1, ''Terminal: Call failed''),
                 trace = [Called Mt5_account_info]\<rparr>) = (- 1, ''Terminal: Call failed'')"
    by (simp add: scripted_def)
  have lb: "lib_last_error scripted
      (terminal \<lparr>terminal = (Inr (PInt 7), 1, ''Success''),
                 trace = [Called Mt5_symbols_total]\<rparr>) = (1, ''Success'')"
    by (simp add: scripted_def)
  show ?thesis
    using error_translation [where f = "account_info scripted", OF a n la,
        of "''account_info''" "[]" "[]"]
      error_translation [where f = "symbols_total scripted", OF b n lb,
        of "''symbols_total''" "[]" "[]"]
    by (simp add: flags_def sample_env_def)
qed

section \<open>Conversion of rates arrays\<close>

text \<open>
  C3. Let the wrapped function return \<open>result\<close>. When \<open>force_namedtuple\<close> is on, the
  helper accepts \<open>result\<close> as a rates array and \<open>result\<close> is a collection \<open>recs\<close> of
  rate records, the result of the wrapper is the list of the \<open>Rate\<close> named tuples of the
  records, one for each record and in their order. When the flag is off or the helper
  does not accept \<open>result\<close>, the result of the wrapper is \<open>result\<close> itself. In both cases
  this is the value the wrapper returns, unless the error check of C1 raises \<open>MT5Error\<close>
  in its place.
\<close>

theorem rates_normalization:
  assumes "f w = (Inr result, w1)"
    and "lib_last_error lib (terminal w1) = (code, description)"
  shows "(force_namedtuple st \<and> is_rates_array env result \<and> py_iter result = Some recs
            \<and> list_all rate_record recs \<longrightarrow>
          normalize_result env st result = Inr (PList (map as_Rate recs))
          \<and> fst (context_manager_modified env lib st fname args kw f w) =
              (if raise_on_errors st \<and> code \<noteq> RES_S_OK env then Inl (MT5Error code description)
               else Inr (PList (map as_Rate recs))))
       \<and> (\<not> force_namedtuple st \<or> \<not> is_rates_array env result \<longrightarrow>
          normalize_result env st result = Inr result
          \<and> fst (context_manager_modified env lib st fname args kw f w) =
              (if raise_on_errors st \<and> code \<noteq> RES_S_OK env then Inl (MT5Error code description)
               else Inr result))"
proof (intro conjI impI)
  assume h: "force_namedtuple st \<and> is_rates_array env result \<and> py_iter result = Some recs
      \<and> list_all rate_record recs"
  then show n: "normalize_result env st result = Inr (PList (map as_Rate recs))"
    by (simp add: normalize_rates)
  show "fst (context_manager_modified env lib st fname args kw f w) =
      (if raise_on_errors st \<and> code \<noteq> RES_S_OK env then Inl (MT5Error code description)
       else Inr (PList (map as_Rate recs)))"
    by (rule wrapper_outcome [where f = f and w = w, OF assms(1) n assms(2)])
next
  assume h: "\<not> force_namedtuple st \<or> \<not> is_rates_array env result"
  then show n: "normalize_result env st result = Inr result"
    by (simp add: normalize_unchanged)
  show "fst (context_manager_modified env lib st fname args kw f w) =
      (if raise_on_errors st \<and> code \<noteq> RES_S_OK env then Inl (MT5Error code description)
       else Inr result)"
    by (rule wrapper_outcome [where f = f and w = w, OF assms(1) n assms(2)])
qed

theorem rates_normalization_witness:
  "fst (context_manager_modified sample_env scripted (flags True False False) ''copy_rates_from_pos''
          [PStr ''EURUSD'', PInt 1, PInt 0, PInt 2] []
          (copy_rates_from_pos scripted (PStr ''EURUSD'') (PInt 1) (PInt 0) (PInt 2))
          (start (Inr (PNdarray
             [PTuple [PInt 1583000000, PInt 11, PInt 13, PInt 10, PInt 12, PInt 40, PInt 1, PInt 0],
              PTuple [PInt 1583000060, PInt 12, PInt 14, PInt 11, PInt 13, PInt 50, PInt 2, PInt 0]]))
            1 ''Success''))
     = Inr (PList
        [PNamed ''Rate'' [PInt 1583000000, PInt 11, PInt 13, PInt 10, PInt 12, PInt 40, PInt 1, PInt 0],
         PNamed ''Rate'' [PInt 1583000060, PInt 12, PInt 14, PInt 11, PInt 13, PInt 50, PInt 2, PInt 0]])
   \<and> fst (context_manager_modified sample_env scripted (flags False False False) ''symbols_total'' [] []
          (symbols_total scripted) (start (Inr (PInt 7)) 1 ''Success''))
     = Inr (PInt 7)"
proof -
  let ?arr = "PNdarray
     [PTuple [PInt 1583000000, PInt 11, PInt 13, PInt 10, PInt 12, PInt 40, PInt 1, PInt 0],
      PTuple [PInt 1583000060, PInt 12, PInt 14, PInt 11, PInt 13, PInt 50, PInt 2, PInt 0]]"
  let ?call = "Mt5_copy_rates_from_pos (PStr ''EURUSD'') (PInt 1) (PInt 0) (PInt 2)"
  have a: "copy_rates_from_pos scripted (PStr ''EURUSD'') (PInt 1) (PInt 0) (PInt 2)
        (start (Inr ?arr) 1 ''Success'')
      = (Inr ?arr, \<lparr>terminal = (Inr ?arr, 1, ''Success''), trace = [Called ?call]\<rparr>)"
    by (simp add: copy_rates_from_pos_def except_SystemError_def mt5_invoke_def scripted_def
        start_def)
  have b: "symbols_total scripted (start (Inr (PInt 7)) 1 ''Success'')
      = (Inr (PInt 7), \<lparr>terminal = (Inr (PInt 7), 1, ''Success''),
                         trace = [Called Mt5_symbols_total]\<rparr>)"
    by (simp add: symbols_total_def mt5_invoke_def scripted_def start_def)
  have la: "lib_last_error scripted
      (terminal \<lparr>terminal = (Inr ?arr, 1, ''Success''), trace = [Called ?call]\<rparr>)
      = (1, ''Success'')"
    by (simp add: scripted_def)
  have lb: "lib_last_error scripted
      (terminal \<lparr>terminal = (Inr (PInt 7), 1, ''Success''),
                 trace = [Called Mt5_symbols_total]\<rparr>) = (1, ''Success'')"
    by (simp add: scripted_def)
  show ?thesis
    using rates_normalization [where f = "copy_rates_from_pos scripted (PStr ''EURUSD'') (PInt 1) (PInt 0) (PInt 2)"
          and st = "flags True False False" and env = sample_env
          and recs = "[PTuple [PInt 1583000000, PInt 11, PInt 13, PInt 10, PInt 12, PInt 40, PInt 1, PInt 0],
                       PTuple [PInt 1583000060, PInt 12, PInt 14, PInt 11, PInt 13, PInt 50, PInt 2, PInt 0]]"
          and fname = "''copy_rates_from_pos''"
          and args = "[PStr ''EURUSD'', PInt 1, PInt 0, PInt 2]" and kw = "[]", OF a la]
      rates_normalization [where f = "symbols_total scripted"
          and st = "flags False False False" and env = sample_env and recs = "[]"
          and fname = "''symbols_total''" and args = "[]" and kw = "[]", OF b lb]
    by (simp add: flags_def sample_env_def rate_record_def as_Rate_def)
qed

section \<open>The order of the optional effects\<close>

text \<open>
  C10. Let the wrapped function return \<open>result\<close> with \<open>result'\<close> the result after the
  optional conversion, let \<open>global_debugging\<close> and \<open>raise_on_errors\<close> both be on, and let
  the library report a code other than \<open>RES_S_OK\<close>. Then the wrapper raises \<open>MT5Error\<close>
  and returns nothing, and what it added to the events is, in this order: the read of
  the last error for the log line; the log line, made of the call signature, the last
  error and the first 80 characters of the converted result; the read of the last
  error for the check.
\<close>

theorem log_then_raise:
  assumes "f w = (Inr result, w1)"
    and "normalize_result env st result = Inr result'"
    and "global_debugging st" and "raise_on_errors st"
    and "lib_last_error lib (terminal w1) = (code, description)"
    and "code \<noteq> RES_S_OK env"
  shows "context_manager_modified env lib st fname args kw f w =
     (Inl (MT5Error code description),
      \<lparr>terminal = terminal w1,
       trace = trace w1 @
         [Read_last_error,
          Logged (''['' @ (fname @ ''('' @ args_to_str env args kw @ '')'') @ ''][''
                   @ py_str env (PTuple [PInt code, PStr description]) @ ''][''
                   @ take 80 (py_str env result') @ '']''),
          Read_last_error]\<rparr>)"
  using assms
  by (simp add: wrapper_returned error_check_def last_error_def debug_log_def state_log_def
      log_line_def)

theorem log_then_raise_witness:
  "context_manager_modified sample_env scripted (flags True True True) ''copy_rates_from_pos''
      [PStr ''EURUSD'', PInt 1, PInt 0, PInt 1] []
      (copy_rates_from_pos scripted (PStr ''EURUSD'') (PInt 1) (PInt 0) (PInt 1))
      (start (Inr (PNdarray
         [PTuple [PInt 1583000000, PInt 11, PInt 13, PInt 10, PInt 12, PInt 40, PInt 1, PInt 0]]))
        (- 2) ''Invalid params'')
   = (Inl (MT5Error (- 2) ''Invalid params''),
      \<lparr>terminal = (Inr (PNdarray
         [PTuple [PInt 1583000000, PInt 11, PInt 13, PInt 10, PInt 12, PInt 40, PInt 1, PInt 0]]),
         - 2, ''Invalid params''),
       trace = [Called (Mt5_copy_rates_from_pos (PStr ''EURUSD'') (PInt 1) (PInt 0) (PInt 1)),
                Read_last_error,
                Logged ''[copy_rates_from_pos()][result][result]'',
                Read_last_error]\<rparr>)"
proof -
  let ?arr = "PNdarray
     [PTuple [PInt 1583000000, PInt 11, PInt 13, PInt 10, PInt 12, PInt 40, PInt 1, PInt 0]]"
  let ?call = "Mt5_copy_rates_from_pos (PStr ''EURUSD'') (PInt 1) (PInt 0) (PInt 1)"
  let ?w1 = "\<lparr>terminal = (Inr ?arr, - 2, ''Invalid params''), trace = [Called ?call]\<rparr>"
  have a: "copy_rates_from_pos scripted (PStr ''EURUSD'') (PInt 1) (PInt 0) (PInt 1)
        (start (Inr ?arr) (- 2) ''Invalid params'') = (Inr ?arr, ?w1)"
    by (simp add: copy_rates_from_pos_def except_SystemError_def mt5_invoke_def scripted_def
        start_def)
  have n: "normalize_result sample_env (flags True True True) ?arr
      = Inr (PList [PNamed ''Rate''
          [PInt 1583000000, PInt 11, PInt 13, PInt 10, PInt 12, PInt 40, PInt 1, PInt 0]])"
    by (simp add: normalize_result_def flags_def sample_env_def Rate_star_def Rate_def)
  have d: "global_debugging (flags True True True)" and r: "raise_on_errors (flags True True True)"
    by (simp_all add: flags_def)
  have l: "lib_last_error scripted (terminal ?w1) = (- 2, ''Invalid params'')"
    by (simp add: scripted_def)
  have c: "- 2 \<noteq> RES_S_OK sample_env"
    by (simp add: sample_env_def)
  show ?thesis
    using log_then_raise [where f = "copy_rates_from_pos scripted (PStr ''EURUSD'') (PInt 1) (PInt 0) (PInt 1)",
        OF a n d r l c, of "''copy_rates_from_pos''" "[PStr ''EURUSD'', PInt 1, PInt 0, PInt 1]" "[]"]
    by (simp add: sample_env_def)
qed

section \<open>The choice of the library call by \<open>copy_rates\<close>\<close>

text \<open>
  C4. \<^verbatim>\<open>copy_rates\<close> makes exactly one call into the library, the one the specification
  names (\<open>copy_rates_dispatch\<close>): \<^verbatim>\<open>copy_rates_from\<close> when \<open>datetime_from\<close> and \<open>count\<close>
  are given, else \<^verbatim>\<open>copy_rates_range\<close> when \<open>datetime_from\<close> and \<open>datetime_to\<close> are given,
  \<^verbatim>\<open>copy_rates_from_pos\<close> with 3000 and 0 when all four are \<^verbatim>\<open>None\<close>, and otherwise
  \<^verbatim>\<open>copy_rates_from_pos\<close> with \<open>start_pos\<close> and \<open>count\<close>; the arguments are passed as
  they came, and the call stands under the \<^verbatim>\<open>try\<close> of line 270.
\<close>

theorem copy_rates_dispatch_refines:
  "copy_rates lib symbol timeframe datetime_from datetime_to start_pos count w =
     except_SystemError
       (mt5_invoke lib (copy_rates_dispatch symbol timeframe datetime_from datetime_to start_pos count)) w
   \<and> trace (snd (copy_rates lib symbol timeframe datetime_from datetime_to start_pos count w)) =
       trace w @ [Called (copy_rates_dispatch symbol timeframe datetime_from datetime_to start_pos count)]"
  by (simp add: copy_rates_dispatches except_SystemError_eq mt5_invoke_world)

theorem copy_rates_dispatch_refines_witness:
  "trace (snd (copy_rates scripted (PStr ''EURUSD'') (PInt 1) (PInt 1583000000) PNone PNone (PInt 10)
      (start (Inr PNone) 1 ''Success'')))
     = [Called (Mt5_copy_rates_from (PStr ''EURUSD'') (PInt 1) (PInt 1583000000) (PInt 10))]
   \<and> trace (snd (copy_rates scripted (PStr ''EURUSD'') (PInt 1) (PInt 1583000000) (PInt 1583003600)
      PNone PNone (start (Inr PNone) 1 ''Success'')))
     = [Called (Mt5_copy_rates_range (PStr ''EURUSD'') (PInt 1) (PInt 1583000000) (PInt 1583003600))]
   \<and> trace (snd (copy_rates scripted (PStr ''EURUSD'') (PInt 1) PNone PNone PNone PNone
      (start (Inr PNone) 1 ''Success'')))
     = [Called (Mt5_copy_rates_from_pos (PStr ''EURUSD'') (PInt 1) (PInt 3000) (PInt 0))]
   \<and> trace (snd (copy_rates scripted (PStr ''EURUSD'') (PInt 1) PNone PNone (PInt 5) (PInt 10)
      (start (Inr PNone) 1 ''Success'')))
     = [Called (Mt5_copy_rates_from_pos (PStr ''EURUSD'') (PInt 1) (PInt 5) (PInt 10))]
   \<and> trace (snd (copy_rates scripted (PStr ''EURUSD'') (PInt 1) (PInt 1583000000) PNone PNone PNone
      (start (Inr PNone) 1 ''Success'')))
     = [Called (Mt5_copy_rates_from_pos (PStr ''EURUSD'') (PInt 1) PNone PNone)]"
  using
    copy_rates_dispatch_refines [of scripted "PStr ''EURUSD''" "PInt 1" "PInt 1583000000" PNone PNone
      "PInt 10" "start (Inr PNone) 1 ''Success''"]
    copy_rates_dispatch_refines [of scripted "PStr ''EURUSD''" "PInt 1" "PInt 1583000000"
      "PInt 1583003600" PNone PNone "start (Inr PNone) 1 ''Success''"]
    copy_rates_dispatch_refines [of scripted "PStr ''EURUSD''" "PInt 1" PNone PNone PNone PNone
      "start (Inr PNone) 1 ''Success''"]
    copy_rates_dispatch_refines [of scripted "PStr ''EURUSD''" "PInt 1" PNone PNone "PInt 5" "PInt 10"
      "start (Inr PNone) 1 ''Success''"]
    copy_rates_dispatch_refines [of scripted "PStr ''EURUSD''" "PInt 1" "PInt 1583000000" PNone PNone
      PNone "start (Inr PNone) 1 ''Success''"]
  by (simp add: copy_rates_dispatch_def start_def except_SystemError_def mt5_invoke_def
      scripted_def)

section \<open>SystemError in the copy functions\<close>

text \<open>
  C8, as the specification states it, fails: the six functions are decorated. When the
  library raises \<^verbatim>\<open>SystemError\<close> the body returns \<^verbatim>\<open>None\<close>, but with \<open>raise_on_errors\<close> on
  and a last error other than \<open>RES_S_OK\<close> the caller of \<^verbatim>\<open>copy_rates_from\<close> gets
  \<open>MT5Error\<close>, not \<^verbatim>\<open>None\<close>.
\<close>

theorem copy_rates_from_raises_MT5Error:
  "fst (copy_rates_from scripted (PStr ''EURUSD'') (PInt 1) (PInt 1583000000) (PInt 10)
          (start (Inl SystemError) (- 1) ''Terminal: Call failed'')) = Inr PNone
   \<and> fst (exposed sample_env scripted (flags False False True)
          [PStr ''EURUSD'', PInt 1, PInt 1583000000, PInt 10] []
          (Op_copy_rates_from (PStr ''EURUSD'') (PInt 1) (PInt 1583000000) (PInt 10))
          (start (Inl SystemError) (- 1) ''Terminal: Call failed''))
       = Inl (MT5Error (- 1) ''Terminal: Call failed'')"
  by (simp add: exposed_def context_manager_modified_def normalize_result_def error_check_def
      last_error_def copy_rates_from_def except_SystemError_def mt5_invoke_def flags_def
      start_def scripted_def sample_env_def)

text \<open>
  C8, amended. Let \<open>op\<close> be a call of one of \<^verbatim>\<open>copy_rates_from\<close>, \<^verbatim>\<open>copy_rates_from_pos\<close>,
  \<^verbatim>\<open>copy_rates_range\<close>, \<^verbatim>\<open>copy_rates\<close>, \<^verbatim>\<open>copy_ticks_from\<close> and \<^verbatim>\<open>copy_ticks_range\<close>, \<open>c\<close> its
  library call, \<open>r\<close> the reply of the library and \<open>(code, description)\<close> its last error
  after the call. When \<open>r\<close> is a \<^verbatim>\<open>SystemError\<close>, the body catches it and yields \<^verbatim>\<open>None\<close>;
  the caller gets \<^verbatim>\<open>None\<close>, unless \<open>raise_on_errors\<close> is on and the code is not
  \<open>RES_S_OK\<close>, in which case the wrapper raises \<open>MT5Error\<close> (\<^verbatim>\<open>None\<close> not being taken for a
  rates array). When \<open>r\<close> is an exception of another type, it is not caught: the body and
  the function the caller gets both raise it.
\<close>

theorem copy_functions_SystemError:
  assumes "(op, c) \<in> set
      [(Op_copy_rates_from symbol timeframe datetime_from count,
          Mt5_copy_rates_from symbol timeframe datetime_from count),
       (Op_copy_rates_from_pos symbol timeframe start_pos count,
          Mt5_copy_rates_from_pos symbol timeframe start_pos count),
       (Op_copy_rates_range symbol timeframe datetime_from datetime_to,
          Mt5_copy_rates_range symbol timeframe datetime_from datetime_to),
       (Op_copy_rates symbol timeframe datetime_from datetime_to start_pos count,
          copy_rates_dispatch symbol timeframe datetime_from datetime_to start_pos count),
       (Op_copy_ticks_from symbol datetime_from count flgs,
          Mt5_copy_ticks_from symbol datetime_from count flgs),
       (Op_copy_ticks_range symbol datetime_from datetime_to flgs,
          Mt5_copy_ticks_range symbol datetime_from datetime_to flgs)]"
    and "respond lib c (terminal w) = (r, t')"
    and "lib_last_error lib t' = (code, description)"
  shows "(r = Inl SystemError \<longrightarrow> fst (body env lib op w) = Inr PNone)
       \<and> (r = Inl SystemError \<and> \<not> (force_namedtuple st \<and> is_rates_array env PNone) \<longrightarrow>
            fst (exposed env lib st args kw op w) =
              (if raise_on_errors st \<and> code \<noteq> RES_S_OK env then Inl (MT5Error code description)
               else Inr PNone))
       \<and> (r = Inl e \<and> e \<noteq> SystemError \<longrightarrow>
            fst (body env lib op w) = Inl e \<and> fst (exposed env lib st args kw op w) = Inl e)"
proof -
  have b: "body env lib op = except_SystemError (mt5_invoke lib c)"
    using assms(1)
    by (auto simp: copy_rates_from_def copy_rates_from_pos_def copy_rates_range_def
        copy_rates_dispatches copy_ticks_from_def copy_ticks_range_def)
  have x: "exposed env lib st args kw op =
      context_manager_modified env lib st (op_name op) args kw (body env lib op)"
    using assms(1) by (auto simp: exposed_def)
  show ?thesis
    unfolding x b
    using guarded_call_outcome [OF assms(2) assms(3), where env = env and st = st
        and fname = "op_name op" and args = args and kw = kw and e = e]
    by simp
qed

theorem copy_functions_SystemError_witness:
  "fst (exposed sample_env scripted (flags False False False)
          [PStr ''EURUSD'', PInt 1, PInt 1583000000, PInt 10] []
          (Op_copy_rates_from (PStr ''EURUSD'') (PInt 1) (PInt 1583000000) (PInt 10))
          (start (Inl SystemError) (- 1) ''Terminal: Call failed'')) = Inr PNone
   \<and> fst (exposed sample_env scripted (flags False False True)
          [PStr ''EURUSD'', PInt 1] []
          (Op_copy_rates (PStr ''EURUSD'') (PInt 1) PNone PNone PNone PNone)
          (start (Inl SystemError) (- 1) ''Terminal: Call failed''))
       = Inl (MT5Error (- 1) ''Terminal: Call failed'')
   \<and> fst (exposed sample_env scripted (flags False False True)
          [PStr ''EURUSD'', PInt 1583000000, PInt 10, PInt 1] []
          (Op_copy_ticks_from (PStr ''EURUSD'') (PInt 1583000000) (PInt 10) (PInt 1))
          (start (Inl (OtherError ''RuntimeError'')) (- 1) ''Terminal: Call failed''))
       = Inl (OtherError ''RuntimeError'')"
proof -
  let ?w = "start (Inl SystemError) (- 1) ''Terminal: Call failed''"
  let ?v = "start (Inl (OtherError ''RuntimeError'')) (- 1) ''Terminal: Call failed''"
  have r1: "respond scripted (Mt5_copy_rates_from (PStr ''EURUSD'') (PInt 1) (PInt 1583000000) (PInt 10))
      (terminal ?w) = (Inl SystemError, (Inl SystemError, - 1, ''Terminal: Call failed''))"
    by (simp add: scripted_def start_def)
  have r2: "respond scripted (Mt5_copy_rates_from_pos (PStr ''EURUSD'') (PInt 1) (PInt 3000) (PInt 0))
      (terminal ?w) = (Inl SystemError, (Inl SystemError, - 1, ''Terminal: Call failed''))"
    by (simp add: scripted_def start_def)
  have r3: "respond scripted (Mt5_copy_ticks_from (PStr ''EURUSD'') (PInt 1583000000) (PInt 10) (PInt 1))
      (terminal ?v) = (Inl (OtherError ''RuntimeError''),
        (Inl (OtherError ''RuntimeError''), - 1, ''Terminal: Call failed''))"
    by (simp add: scripted_def start_def)
  have l1: "lib_last_error scripted (Inl SystemError, - 1, ''Terminal: Call failed'')
      = (- 1, ''Terminal: Call failed'')"
    by (simp add: scripted_def)
  have l3: "lib_last_error scripted (Inl (OtherError ''RuntimeError''), - 1, ''Terminal: Call failed'')
      = (- 1, ''Terminal: Call failed'')"
    by (simp add: scripted_def)
  have m1: "(Op_copy_rates_from (PStr ''EURUSD'') (PInt 1) (PInt 1583000000) (PInt 10),
       Mt5_copy_rates_from (PStr ''EURUSD'') (PInt 1) (PInt 1583000000) (PInt 10)) \<in> set
      [(Op_copy_rates_from (PStr ''EURUSD'') (PInt 1) (PInt 1583000000) (PInt 10),
          Mt5_copy_rates_from (PStr ''EURUSD'') (PInt 1) (PInt 1583000000) (PInt 10)),
       (Op_copy_rates_from_pos (PStr ''EURUSD'') (PInt 1) PNone (PInt 10),
          Mt5_copy_rates_from_pos (PStr ''EURUSD'') (PInt 1) PNone (PInt 10)),
       (Op_copy_rates_range (PStr ''EURUSD'') (PInt 1) (PInt 1583000000) PNone,
          Mt5_copy_rates_range (PStr ''EURUSD'') (PInt 1) (PInt 1583000000) PNone),
       (Op_copy_rates (PStr ''EURUSD'') (PInt 1) (PInt 1583000000) PNone PNone (PInt 10),
          copy_rates_dispatch (PStr ''EURUSD'') (PInt 1) (PInt 1583000000) PNone PNone (PInt 10)),
       (Op_copy_ticks_from (PStr ''EURUSD'') (PInt 1583000000) (PInt 10) PNone,
          Mt5_copy_ticks_from (PStr ''EURUSD'') (PInt 1583000000) (PInt 10) PNone),
       (Op_copy_ticks_range (PStr ''EURUSD'') (PInt 1583000000) PNone PNone,
          Mt5_copy_ticks_range (PStr ''EURUSD'') (PInt 1583000000) PNone PNone)]"
    by simp
  have m2: "(Op_copy_rates (PStr ''EURUSD'') (PInt 1) PNone PNone PNone PNone,
       Mt5_copy_rates_from_pos (PStr ''EURUSD'') (PInt 1) (PInt 3000) (PInt 0)) \<in> set
      [(Op_copy_rates_from (PStr ''EURUSD'') (PInt 1) PNone PNone,
          Mt5_copy_rates_from (PStr ''EURUSD'') (PInt 1) PNone PNone),
       (Op_copy_rates_from_pos (PStr ''EURUSD'') (PInt 1) PNone PNone,
          Mt5_copy_rates_from_pos (PStr ''EURUSD'') (PInt 1) PNone PNone),
       (Op_copy_rates_range (PStr ''EURUSD'') (PInt 1) PNone PNone,
          Mt5_copy_rates_range (PStr ''EURUSD'') (PInt 1) PNone PNone),
       (Op_copy_rates (PStr ''EURUSD'') (PInt 1) PNone PNone PNone PNone,
          copy_rates_dispatch (PStr ''EURUSD'') (PInt 1) PNone PNone PNone PNone),
       (Op_copy_ticks_from (PStr ''EURUSD'') PNone PNone PNone,
          Mt5_copy_ticks_from (PStr ''EURUSD'') PNone PNone PNone),
       (Op_copy_ticks_range (PStr ''EURUSD'') PNone PNone PNone,
          Mt5_copy_ticks_range (PStr ''EURUSD'') PNone PNone PNone)]"
    by (simp add: copy_rates_dispatch_def)
  have m3: "(Op_copy_ticks_from (PStr ''EURUSD'') (PInt 1583000000) (PInt 10) (PInt 1),
       Mt5_copy_ticks_from (PStr ''EURUSD'') (PInt 1583000000) (PInt 10) (PInt 1)) \<in> set
      [(Op_copy_rates_from (PStr ''EURUSD'') PNone (PInt 1583000000) (PInt 10),
          Mt5_copy_rates_from (PStr ''EURUSD'') PNone (PInt 1583000000) (PInt 10)),
       (Op_copy_rates_from_pos (PStr ''EURUSD'') PNone PNone (PInt 10),
          Mt5_copy_rates_from_pos (PStr ''EURUSD'') PNone PNone (PInt 10)),
       (Op_copy_rates_range (PStr ''EURUSD'') PNone (PInt 1583000000) PNone,
          Mt5_copy_rates_range (PStr ''EURUSD'') PNone (PInt 1583000000) PNone),
       (Op_copy_rates (PStr ''EURUSD'') PNone (PInt 1583000000) PNone PNone (PInt 10),
          copy_rates_dispatch (PStr ''EURUSD'') PNone (PInt 1583000000) PNone PNone (PInt 10)),
       (Op_copy_ticks_from (PStr ''EURUSD'') (PInt 1583000000) (PInt 10) (PInt 1),
          Mt5_copy_ticks_from (PStr ''EURUSD'') (PInt 1583000000) (PInt 10) (PInt 1)),
       (Op_copy_ticks_range (PStr ''EURUSD'') (PInt 1583000000) PNone (PInt 1),
          Mt5_copy_ticks_range (PStr ''EURUSD'') (PInt 1583000000) PNone (PInt 1))]"
    by simp
  show ?thesis
    using
      copy_functions_SystemError [OF m1 r1 l1, of sample_env "flags False False False"
        "[PStr ''EURUSD'', PInt 1, PInt 1583000000, PInt 10]" "[]" SystemError]
      copy_functions_SystemError [OF m2 r2 l1, of sample_env "flags False False True"
        "[PStr ''EURUSD'', PInt 1]" "[]" SystemError]
      copy_functions_SystemError [OF m3 r3 l3, of sample_env "flags False False True"
        "[PStr ''EURUSD'', PInt 1583000000, PInt 10, PInt 1]" "[]" "OtherError ''RuntimeError''"]
    by (simp add: flags_def sample_env_def)
qed

section \<open>\<open>symbols_get\<close>: the group and the predicate\<close>

text \<open>
  C5. Let the group have a truth value, so that \<^verbatim>\<open>symbols_get\<close> reaches its library
  call. Without a predicate, \<^verbatim>\<open>symbols_get\<close> is that call: it returns the library's
  result as it is. With a predicate \<open>f\<close>, when the library returns the tuple \<open>xs\<close>,
  \<^verbatim>\<open>symbols_get\<close> returns the tuple of the elements of \<open>xs\<close> that satisfy \<open>f\<close>, in the
  order of \<open>xs\<close>.
\<close>

theorem symbols_get_filters:
  assumes "py_truthy g = Some b"
  shows "symbols_get lib g None k w = mt5_invoke lib (Mt5_symbols_get (if b then Some g else None)) w
       \<and> (mt5_invoke lib (Mt5_symbols_get (if b then Some g else None)) w = (Inr (PTuple xs), w') \<longrightarrow>
            symbols_get lib g (Some f) k w = (Inr (PTuple (filter f xs)), w'))"
  using assms
  by (auto simp: symbols_get_def tuple_filter_def split: prod.split sum.split)

theorem symbols_get_filters_witness:
  "symbols_get scripted PNone (Some (\<lambda>v. v \<noteq> PNamed ''SymbolInfo'' [PStr ''GBPUSD''])) []
      (start (Inr (PTuple [PNamed ''SymbolInfo'' [PStr ''EURUSD''],
                           PNamed ''SymbolInfo'' [PStr ''GBPUSD''],
                           PNamed ''SymbolInfo'' [PStr ''USDJPY'']])) 1 ''Success'')
   = (Inr (PTuple [PNamed ''SymbolInfo'' [PStr ''EURUSD''], PNamed ''SymbolInfo'' [PStr ''USDJPY'']]),
      \<lparr>terminal = (Inr (PTuple [PNamed ''SymbolInfo'' [PStr ''EURUSD''],
                                 PNamed ''SymbolInfo'' [PStr ''GBPUSD''],
                                 PNamed ''SymbolInfo'' [PStr ''USDJPY'']]), 1, ''Success''),
       trace = [Called (Mt5_symbols_get None)]\<rparr>)
   \<and> symbols_get scripted PNone None []
      (start (Inr (PTuple [PNamed ''SymbolInfo'' [PStr ''EURUSD''],
                           PNamed ''SymbolInfo'' [PStr ''GBPUSD''],
                           PNamed ''SymbolInfo'' [PStr ''USDJPY'']])) 1 ''Success'')
   = (Inr (PTuple [PNamed ''SymbolInfo'' [PStr ''EURUSD''],
                   PNamed ''SymbolInfo'' [PStr ''GBPUSD''],
                   PNamed ''SymbolInfo'' [PStr ''USDJPY'']]),
      \<lparr>terminal = (Inr (PTuple [PNamed ''SymbolInfo'' [PStr ''EURUSD''],
                                 PNamed ''SymbolInfo'' [PStr ''GBPUSD''],
                                 PNamed ''SymbolInfo'' [PStr ''USDJPY'']]), 1, ''Success''),
       trace = [Called (Mt5_symbols_get None)]\<rparr>)"
proof -
  have t: "py_truthy PNone = Some False"
    by simp
  show ?thesis
    using symbols_get_filters [OF t, of scripted "[]"
        "start (Inr (PTuple [PNamed ''SymbolInfo'' [PStr ''EURUSD''],
                             PNamed ''SymbolInfo'' [PStr ''GBPUSD''],
                             PNamed ''SymbolInfo'' [PStr ''USDJPY'']])) 1 ''Success''"
        "[PNamed ''SymbolInfo'' [PStr ''EURUSD''], PNamed ''SymbolInfo'' [PStr ''GBPUSD''],
          PNamed ''SymbolInfo'' [PStr ''USDJPY'']]"
        "\<lparr>terminal = (Inr (PTuple [PNamed ''SymbolInfo'' [PStr ''EURUSD''],
                                    PNamed ''SymbolInfo'' [PStr ''GBPUSD''],
                                    PNamed ''SymbolInfo'' [PStr ''USDJPY'']]), 1, ''Success''),
          trace = [Called (Mt5_symbols_get None)]\<rparr>"
        "\<lambda>v. v \<noteq> PNamed ''SymbolInfo'' [PStr ''GBPUSD'']"]
    by (simp add: mt5_invoke_def scripted_def start_def)
qed

text \<open>
  C9. A group whose truth value is false, as \<^verbatim>\<open>None\<close> and the empty string are, is not
  passed on: the library's \<^verbatim>\<open>symbols_get\<close> is called with no argument. A group whose
  truth value is true, as every non-empty string is, is passed as \<^verbatim>\<open>group\<close>. In both
  cases this is the only call, and the result is its reply, filtered when a predicate
  was given.
\<close>

theorem symbols_get_group:
  "(py_truthy g = Some False \<longrightarrow>
      symbols_get lib g fn k w =
        (case mt5_invoke lib (Mt5_symbols_get None) w of (r, w') \<Rightarrow> (filtered_by fn r, w'))
      \<and> trace (snd (symbols_get lib g fn k w)) = trace w @ [Called (Mt5_symbols_get None)])
   \<and> (py_truthy g = Some True \<longrightarrow>
      symbols_get lib g fn k w =
        (case mt5_invoke lib (Mt5_symbols_get (Some g)) w of (r, w') \<Rightarrow> (filtered_by fn r, w'))
      \<and> trace (snd (symbols_get lib g fn k w)) = trace w @ [Called (Mt5_symbols_get (Some g))])
   \<and> py_truthy PNone = Some False
   \<and> py_truthy (PStr []) = Some False
   \<and> (s \<noteq> [] \<longrightarrow> py_truthy (PStr s) = Some True)"
  by (simp add: symbols_get_eq [where b = False] symbols_get_eq [where b = True]
      invoke_case_trace)

theorem symbols_get_group_witness:
  "trace (snd (symbols_get scripted PNone None [] (start (Inr (PTuple [])) 1 ''Success'')))
     = [Called (Mt5_symbols_get None)]
   \<and> trace (snd (symbols_get scripted (PStr []) None [] (start (Inr (PTuple [])) 1 ''Success'')))
     = [Called (Mt5_symbols_get None)]
   \<and> trace (snd (symbols_get scripted (PStr ''*USD*'') None [] (start (Inr (PTuple [])) 1 ''Success'')))
     = [Called (Mt5_symbols_get (Some (PStr ''*USD*'')))]"
  using
    symbols_get_group [of PNone scripted None "[]" "start (Inr (PTuple [])) 1 ''Success''" "''*USD*''"]
    symbols_get_group [of "PStr []" scripted None "[]" "start (Inr (PTuple [])) 1 ''Success''" "''*USD*''"]
    symbols_get_group [of "PStr ''*USD*''" scripted None "[]" "start (Inr (PTuple [])) 1 ''Success''"
      "''*USD*''"]
  by (simp add: start_def mt5_invoke_def scripted_def filtered_by_def)

section \<open>Delegation to the library\<close>




section \<open>Which functions carry the decorator\<close>

text \<open>
  C2, as the specification states it, fails: \<^verbatim>\<open>last_error\<close> does not pass through the
  wrapper. With \<open>global_debugging\<close> and \<open>raise_on_errors\<close> on and a last error other than
  \<open>RES_S_OK\<close>, \<^verbatim>\<open>last_error()\<close> returns the tuple and logs nothing, where the wrapper
  around the same body would log a line and raise \<open>MT5Error\<close>.
\<close>

theorem last_error_not_wrapped:
  "exposed sample_env scripted (flags False True True) [] [] Op_last_error
      (start (Inr PNone) (- 1) ''Terminal: Call failed'')
   = (Inr (PTuple [PInt (- 1), PStr ''Terminal: Call failed'']),
      \<lparr>terminal = (Inr PNone, - 1, ''Terminal: Call failed''), trace = [Read_last_error]\<rparr>)
   \<and> context_manager_modified sample_env scripted (flags False True True) (op_name Op_last_error) [] []
      (body sample_env scripted Op_last_error) (start (Inr PNone) (- 1) ''Terminal: Call failed'')
   = (Inl (MT5Error (- 1) ''Terminal: Call failed''),
      \<lparr>terminal = (Inr PNone, - 1, ''Terminal: Call failed''),
       trace = [Read_last_error, Read_last_error, Logged ''[last_error()][result][result]'',
                Read_last_error]\<rparr>)"
  by (simp add: exposed_def context_manager_modified_def normalize_result_def error_check_def
      debug_log_def log_line_def state_log_def last_error_tuple_def last_error_def flags_def
      start_def scripted_def sample_env_def)

text \<open>
  C2, amended. Every public operation other than \<^verbatim>\<open>last_error\<close> is its body under the
  wrapper, which is given the name of the function and the arguments of the call.
  \<^verbatim>\<open>last_error\<close> is not wrapped: whatever the flags, it returns the last error of the
  library as a tuple, logs nothing and raises nothing.
\<close>

theorem decorated_all_but_last_error:
  "(op \<noteq> Op_last_error \<longrightarrow>
      exposed env lib st args kw op =
        context_manager_modified env lib st (op_name op) args kw (body env lib op))
   \<and> exposed env lib st args kw Op_last_error w =
       (Inr (PTuple [PInt (fst (lib_last_error lib (terminal w))),
                     PStr (snd (lib_last_error lib (terminal w)))]),
        \<lparr>terminal = terminal w, trace = trace w @ [Read_last_error]\<rparr>)"
  by (cases op) (simp_all add: exposed_def last_error_tuple_def last_error_def split: prod.split)

theorem decorated_all_but_last_error_witness:
  "exposed sample_env scripted (flags False True True) [] [] Op_account_info
      (start (Inr PNone) (- 1) ''Terminal: Call failed'')
   = (Inl (MT5Error (- 1) ''Terminal: Call failed''),
      \<lparr>terminal = (Inr PNone, - 1, ''Terminal: Call failed''),
       trace = [Called Mt5_account_info, Read_last_error,
                Logged ''[account_info()][result][result]'', Read_last_error]\<rparr>)"
proof -
  have d: "Op_account_info \<noteq> Op_last_error"
    by simp
  show ?thesis
    using decorated_all_but_last_error [of Op_account_info sample_env scripted
        "flags False True True" "[]" "[]" "start (Inr PNone) (- 1) ''Terminal: Call failed''"] d
    by (simp add: context_manager_modified_def normalize_result_def error_check_def
        debug_log_def log_line_def state_log_def last_error_def account_info_def mt5_invoke_def
        flags_def start_def scripted_def sample_env_def)
qed

end
